theory Spec2Isabelle
  imports Main "HOL-Library.Word"
begin

section \<open>The cgo trampolines of \<open>class_registry_c.c\<close>\<close>

text \<open>
  The file \<^verbatim>\<open>src/game/pkg/gdextension/class_registry_c.c\<close> holds three C functions.
  Each one is a single call of a function exported from Go (declared in the generated
  header \<^verbatim>\<open>_cgo_export.h\<close>, which is not part of the file):
  \<^verbatim>\<open>
  GDExtensionClassInstancePtr c_create_instance_wrapper(void* class_userdata) {
      return go_create_instance(class_userdata);
  }
  void c_free_instance_wrapper(void* class_userdata, GDExtensionClassInstancePtr instance) {
      go_free_instance(class_userdata, instance);
  }
  void c_method_call_wrapper(void* method_userdata, GDExtensionClassInstancePtr instance,
                            const GDExtensionVariantPtr* args, int64_t arg_count,
                            GDExtensionVariantPtr ret, int64_t* error) {
      go_method_call(method_userdata, instance, args, arg_count, ret, error);
  }
  \<close>
\<close>

subsection \<open>Values and memory\<close>

text \<open>
  Every pointer type of the file (\<^verbatim>\<open>void*\<close>, \<^verbatim>\<open>GDExtensionClassInstancePtr\<close>,
  \<^verbatim>\<open>GDExtensionVariantPtr\<close>, \<^verbatim>\<open>const GDExtensionVariantPtr*\<close>, \<^verbatim>\<open>int64_t*\<close>) is an
  address, taken to be 64 bits wide; \<^verbatim>\<open>int64_t\<close> is a 64-bit word, read as a signed
  number by \<^const>\<open>sint\<close>.
\<close>

type_synonym ptr = "64 word"
type_synonym int64_t = "64 word"

definition NULL :: ptr where
  "NULL = 0"

text \<open>
  What a C function and a Go handler can both reach: the memory, a partial map from
  addresses to 64-bit cells (an unmapped address cannot be read or written), and the
  state of the Go runtime (its class registry and instance table), of which the C side
  knows nothing.
\<close>

record 'g world =
  memory :: "ptr \<rightharpoonup> int64_t"
  go_runtime :: 'g

subsection \<open>The exported Go handlers\<close>

text \<open>
  The three handlers are external to the file, so they are parameters of the model.
  A handler receives its positional arguments and the world, and either returns a
  value together with the world it leaves, or does not return at all (\<open>None\<close>: a Go
  panic, a fault in the handler, an abort).
\<close>

type_synonym ('a, 'g) extern = "'g world \<Rightarrow> ('a \<times> 'g world) option"

record 'g handlers =
  go_create_instance :: "ptr \<Rightarrow> (ptr, 'g) extern"
  go_free_instance :: "ptr \<Rightarrow> ptr \<Rightarrow> (unit, 'g) extern"
  go_method_call :: "ptr \<Rightarrow> ptr \<Rightarrow> ptr \<Rightarrow> int64_t \<Rightarrow> ptr \<Rightarrow> ptr \<Rightarrow> (unit, 'g) extern"

subsection \<open>Running C code\<close>

text \<open>
  A call of an external handler is an observable event; the event records which handler
  was called and the value of each actual argument, in the order they were passed.
\<close>

datatype event =
    Create_call ptr
  | Free_call ptr ptr
  | Method_call ptr ptr ptr int64_t ptr ptr

text \<open>
  Running a C function from a world yields the handler calls it made, in order, and its
  outcome: the returned value with the world it leaves, or \<open>None\<close> when it does not
  return.
\<close>

type_synonym ('a, 'g) cexec = "'g world \<Rightarrow> event list \<times> ('a \<times> 'g world) option"

definition return_c :: "'a \<Rightarrow> ('a, 'g) cexec" where
  "return_c x w = ([], Some (x, w))"

definition bind_c :: "('a, 'g) cexec \<Rightarrow> ('a \<Rightarrow> ('b, 'g) cexec) \<Rightarrow> ('b, 'g) cexec" where
  "bind_c m k w =
     (case m w of
        (t, None) \<Rightarrow> (t, None)
      | (t, Some (x, w')) \<Rightarrow> (case k x w' of (t', r) \<Rightarrow> (t @ t', r)))"

text \<open>The call expressions \<^verbatim>\<open>go_create_instance(a)\<close>, \<^verbatim>\<open>go_free_instance(a, b)\<close> and
  \<^verbatim>\<open>go_method_call(a, b, c, d, e, f)\<close>: the call is recorded with its actual arguments
  and the handler runs on the current world.\<close>

definition call_go_create_instance :: "'g handlers \<Rightarrow> ptr \<Rightarrow> (ptr, 'g) cexec" where
  "call_go_create_instance H a w = ([Create_call a], go_create_instance H a w)"

definition call_go_free_instance :: "'g handlers \<Rightarrow> ptr \<Rightarrow> ptr \<Rightarrow> (unit, 'g) cexec" where
  "call_go_free_instance H a b w = ([Free_call a b], go_free_instance H a b w)"

definition call_go_method_call ::
  "'g handlers \<Rightarrow> ptr \<Rightarrow> ptr \<Rightarrow> ptr \<Rightarrow> int64_t \<Rightarrow> ptr \<Rightarrow> ptr \<Rightarrow> (unit, 'g) cexec" where
  "call_go_method_call H a b c d e f w = ([Method_call a b c d e f], go_method_call H a b c d e f w)"

subsection \<open>The three trampolines\<close>

text \<open>\<^verbatim>\<open>return go_create_instance(class_userdata);\<close>\<close>

definition c_create_instance_wrapper :: "'g handlers \<Rightarrow> ptr \<Rightarrow> (ptr, 'g) cexec" where
  "c_create_instance_wrapper H class_userdata =
     bind_c (call_go_create_instance H class_userdata) (\<lambda>r. return_c r)"

text \<open>\<^verbatim>\<open>go_free_instance(class_userdata, instance);\<close> as an expression statement, then the
  end of a \<^verbatim>\<open>void\<close> function.\<close>

definition c_free_instance_wrapper :: "'g handlers \<Rightarrow> ptr \<Rightarrow> ptr \<Rightarrow> (unit, 'g) cexec" where
  "c_free_instance_wrapper H class_userdata instance =
     bind_c (call_go_free_instance H class_userdata instance) (\<lambda>_. return_c ())"

text \<open>\<^verbatim>\<open>go_method_call(method_userdata, instance, args, arg_count, ret, error);\<close> as an
  expression statement, then the end of a \<^verbatim>\<open>void\<close> function.\<close>

definition c_method_call_wrapper ::
  "'g handlers \<Rightarrow> ptr \<Rightarrow> ptr \<Rightarrow> ptr \<Rightarrow> int64_t \<Rightarrow> ptr \<Rightarrow> ptr \<Rightarrow> (unit, 'g) cexec" where
  "c_method_call_wrapper H method_userdata instance args arg_count ret error =
     bind_c (call_go_method_call H method_userdata instance args arg_count ret error)
       (\<lambda>_. return_c ())"

subsection \<open>Reading an execution\<close>

text \<open>The handler calls made, the value returned and the world left behind (both only if
  the function returned), what the caller reads at an address afterwards, and whether an
  outcome is a return.\<close>

definition calls_of :: "event list \<times> ('a \<times> 'g world) option \<Rightarrow> event list" where
  "calls_of r = fst r"

definition value_of :: "event list \<times> ('a \<times> 'g world) option \<Rightarrow> 'a option" where
  "value_of r = map_option fst (snd r)"

definition world_of :: "event list \<times> ('a \<times> 'g world) option \<Rightarrow> 'g world option" where
  "world_of r = map_option snd (snd r)"

definition observed_at :: "ptr \<Rightarrow> event list \<times> ('a \<times> 'g world) option \<Rightarrow> int64_t option" where
  "observed_at p r = (case snd r of None \<Rightarrow> None | Some (x, w) \<Rightarrow> memory w p)"

definition returns :: "('a \<times> 'g world) option \<Rightarrow> bool" where
  "returns out = (case out of None \<Rightarrow> False | Some y \<Rightarrow> True)"

text \<open>The \<^verbatim>\<open>arg_count\<close> a recorded call carried, as the signed number the handler reads.\<close>

fun arg_count_passed :: "event \<Rightarrow> int option" where
  "arg_count_passed (Method_call a b c d e f) = Some (sint d)"
| "arg_count_passed (Create_call a) = None"
| "arg_count_passed (Free_call a b) = None"

text \<open>The error-code pointer a recorded call carried.\<close>

fun error_ptr_passed :: "event \<Rightarrow> ptr option" where
  "error_ptr_passed (Method_call a b c d e f) = Some f"
| "error_ptr_passed (Create_call a) = None"
| "error_ptr_passed (Free_call a b) = None"

subsection \<open>The host engine as a driver\<close>

text \<open>
  The host engine calls the three registered callbacks in some sequence. A callback
  invocation is one of the three shapes below; its reply is an instance pointer or
  nothing. \<open>via_bridge\<close> serves an invocation through the trampoline registered for it,
  \<open>direct\<close> by the Go handler itself with no C code in between (the pure pass-through
  the specification describes, to be compared with \<open>via_bridge\<close>), and \<open>host_run\<close> makes
  the invocations one after the other, each on the world the previous one left.
\<close>

datatype host_call =
    Create_instance ptr
  | Free_instance ptr ptr
  | Call_method ptr ptr ptr int64_t ptr ptr

datatype reply = Instance ptr | Void

fun via_bridge :: "'g handlers \<Rightarrow> host_call \<Rightarrow> (reply, 'g) cexec" where
  "via_bridge H (Create_instance cu) =
     bind_c (c_create_instance_wrapper H cu) (\<lambda>r. return_c (Instance r))"
| "via_bridge H (Free_instance cu inst) =
     bind_c (c_free_instance_wrapper H cu inst) (\<lambda>_. return_c Void)"
| "via_bridge H (Call_method mu inst args n ret err) =
     bind_c (c_method_call_wrapper H mu inst args n ret err) (\<lambda>_. return_c Void)"

fun direct :: "'g handlers \<Rightarrow> host_call \<Rightarrow> (reply, 'g) cexec" where
  "direct H (Create_instance cu) w =
     ([Create_call cu],
      case go_create_instance H cu w of None \<Rightarrow> None | Some (r, w') \<Rightarrow> Some (Instance r, w'))"
| "direct H (Free_instance cu inst) w =
     ([Free_call cu inst],
      case go_free_instance H cu inst w of None \<Rightarrow> None | Some (u, w') \<Rightarrow> Some (Void, w'))"
| "direct H (Call_method mu inst args n ret err) w =
     ([Method_call mu inst args n ret err],
      case go_method_call H mu inst args n ret err w of
        None \<Rightarrow> None | Some (u, w') \<Rightarrow> Some (Void, w'))"

fun host_run :: "(host_call \<Rightarrow> (reply, 'g) cexec) \<Rightarrow> host_call list \<Rightarrow> (reply list, 'g) cexec" where
  "host_run serve [] = return_c []"
| "host_run serve (c # cs) =
     bind_c (serve c) (\<lambda>r. bind_c (host_run serve cs) (\<lambda>rs. return_c (r # rs)))"

subsection \<open>A sample handler set and sample worlds\<close>

text \<open>
  Inputs for the concrete scenarios. The sample \<open>go_create_instance\<close> returns the null
  instance; the sample \<open>go_free_instance\<close> does nothing; the sample \<open>go_method_call\<close>
  reads the first argument cell when \<open>arg_count\<close> is not zero, then writes 42 to the
  return-value cell and error code 0 to the error cell, and does not return when a cell it
  needs is unmapped. In \<open>sample_world v\<close> the cells at 8192 and 8200 are mapped (the second
  holds \<open>v\<close>) and nothing else is, the null address included.
\<close>

definition sample_handlers :: "unit handlers" where
  "sample_handlers =
     \<lparr> go_create_instance = (\<lambda>cu w. Some (NULL, w)),
       go_free_instance = (\<lambda>cu inst w. Some ((), w)),
       go_method_call = (\<lambda>mu inst args n ret err w.
         case (if n = 0 then Some 0 else memory w args) of
           None \<Rightarrow> None
         | Some a \<Rightarrow>
             (case memory w ret of
                None \<Rightarrow> None
              | Some b \<Rightarrow>
                  (case memory w err of
                     None \<Rightarrow> None
                   | Some c \<Rightarrow> Some ((), w\<lparr>memory := (memory w)(ret \<mapsto> 42, err \<mapsto> 0)\<rparr>)))) \<rparr>"

definition sample_world :: "int64_t \<Rightarrow> unit world" where
  "sample_world v = \<lparr> memory = [8192 \<mapsto> 0, 8200 \<mapsto> v], go_runtime = () \<rparr>"

section \<open>Basic facts\<close>

lemma bind_c_return_c: "bind_c m return_c = m"
  by (rule ext) (auto simp: bind_c_def return_c_def split: prod.splits option.splits)

lemma create_run:
  "c_create_instance_wrapper H cu w = ([Create_call cu], go_create_instance H cu w)"
  by (simp add: c_create_instance_wrapper_def bind_c_return_c call_go_create_instance_def)

lemma free_run:
  "c_free_instance_wrapper H cu inst w = ([Free_call cu inst], go_free_instance H cu inst w)"
  by (simp add: c_free_instance_wrapper_def bind_c_return_c call_go_free_instance_def)

lemma method_run:
  "c_method_call_wrapper H mu inst args n ret err w =
     ([Method_call mu inst args n ret err], go_method_call H mu inst args n ret err w)"
  by (simp add: c_method_call_wrapper_def bind_c_return_c call_go_method_call_def)

lemma return_c_bind_c: "bind_c (return_c x) k = k x"
  by (rule ext) (simp add: bind_c_def return_c_def split: prod.splits)

lemma bind_c_assoc: "bind_c (bind_c m f) g = bind_c m (\<lambda>x. bind_c (f x) g)"
  by (rule ext) (simp add: bind_c_def split: prod.splits option.splits)

lemma via_bridge_direct: "via_bridge H c = direct H c"
proof (rule ext)
  fix w
  show "via_bridge H c w = direct H c w"
    by (cases c)
      (simp_all add: bind_c_def return_c_def create_run free_run method_run
        split: option.splits)
qed

lemma host_run_snoc:
  "host_run serve (cs @ [c]) =
     bind_c (host_run serve cs) (\<lambda>rs. bind_c (serve c) (\<lambda>r. return_c (rs @ [r])))"
proof (induction cs)
  case Nil
  show ?case
    by (simp add: return_c_bind_c)
next
  case (Cons a cs)
  then show ?case
    by (simp add: bind_c_assoc return_c_bind_c)
qed

section \<open>The claims\<close>

text \<open>
  C1. Each of the three trampolines calls exactly one handler
  (\<open>c_create_instance_wrapper\<close> calls \<open>go_create_instance\<close>, \<open>c_free_instance_wrapper\<close>
  calls \<open>go_free_instance\<close>, \<open>c_method_call_wrapper\<close> calls \<open>go_method_call\<close>), and the
  handler receives every parameter of the trampoline with the same value and at the same
  position: the list of calls made is the single call with the parameters as received,
  and the outcome is that of the handler applied to exactly these parameters.
\<close>

theorem trampolines_forward_parameters:
  "calls_of (c_create_instance_wrapper H cu w) = [Create_call cu]
   \<and> snd (c_create_instance_wrapper H cu w) = go_create_instance H cu w
   \<and> calls_of (c_free_instance_wrapper H cu inst w) = [Free_call cu inst]
   \<and> snd (c_free_instance_wrapper H cu inst w) = go_free_instance H cu inst w
   \<and> calls_of (c_method_call_wrapper H mu inst args n ret err w)
       = [Method_call mu inst args n ret err]
   \<and> snd (c_method_call_wrapper H mu inst args n ret err w)
       = go_method_call H mu inst args n ret err w"
proof -
  have create_eq: "c_create_instance_wrapper H cu w = ([Create_call cu], go_create_instance H cu w)"
    by (rule create_run)
  have free_eq: "c_free_instance_wrapper H cu inst w
      = ([Free_call cu inst], go_free_instance H cu inst w)"
    by (rule free_run)
  have method_eq: "c_method_call_wrapper H mu inst args n ret err w
      = ([Method_call mu inst args n ret err], go_method_call H mu inst args n ret err w)"
    by (rule method_run)
  show ?thesis
    unfolding calls_of_def create_eq free_eq method_eq by simp
qed

text \<open>
  C2. For every class user-data pointer, when \<open>go_create_instance\<close> returns a value \<open>r\<close>
  (any value, the null instance included), \<open>c_create_instance_wrapper\<close> returns exactly
  \<open>r\<close> and leaves the world the handler left; it checks neither its input nor the result.
\<close>

theorem create_instance_returns_handler_value:
  assumes "go_create_instance H cu w = Some (r, w')"
  shows "value_of (c_create_instance_wrapper H cu w) = Some r
         \<and> world_of (c_create_instance_wrapper H cu w) = Some w'"
  using assms by (simp add: value_of_def world_of_def create_run)

text \<open>The scenario of the specification: a non-null class user-data pointer and a handler
  that returns the null instance.\<close>

theorem create_instance_returns_handler_value_witness:
  "go_create_instance sample_handlers 4096 (sample_world 0) = Some (NULL, sample_world 0)
   \<and> (4096 :: ptr) \<noteq> NULL
   \<and> value_of (c_create_instance_wrapper sample_handlers 4096 (sample_world 0)) = Some NULL"
  using create_instance_returns_handler_value
    [of sample_handlers 4096 "sample_world 0" NULL "sample_world 0"]
  by (simp add: sample_handlers_def NULL_def)

text \<open>
  C3. For every invocation of \<open>c_method_call_wrapper\<close>, the handler receives the
  argument-array pointer and \<open>arg_count\<close> as given, and when the handler returns leaving
  a world \<open>w'\<close>, the caller finds exactly \<open>w'\<close>: what it reads at the return-value
  location and at the error-code location (and anywhere else) is what the handler left
  there; the trampoline writes nothing of its own.
\<close>

theorem method_call_outputs_observable:
  assumes "go_method_call H mu inst args n ret err w = Some ((), w')"
  shows "calls_of (c_method_call_wrapper H mu inst args n ret err w)
           = [Method_call mu inst args n ret err]
         \<and> world_of (c_method_call_wrapper H mu inst args n ret err w) = Some w'
         \<and> observed_at ret (c_method_call_wrapper H mu inst args n ret err w) = memory w' ret
         \<and> observed_at err (c_method_call_wrapper H mu inst args n ret err w) = memory w' err"
  using assms by (simp add: calls_of_def world_of_def observed_at_def method_run)

theorem method_call_outputs_observable_witness:
  "observed_at 8192 (c_method_call_wrapper sample_handlers 4096 4104 8192 1 8192 8200
      (sample_world 7)) = Some 42
   \<and> observed_at 8200 (c_method_call_wrapper sample_handlers 4096 4104 8192 1 8192 8200
      (sample_world 7)) = Some 0
   \<and> calls_of (c_method_call_wrapper sample_handlers 4096 4104 8192 1 8192 8200
      (sample_world 7)) = [Method_call 4096 4104 8192 1 8192 8200]"
  using method_call_outputs_observable
    [of sample_handlers 4096 4104 8192 1 8192 8200 "sample_world 7"
      "(sample_world 7)\<lparr>memory := (memory (sample_world 7))(8192 \<mapsto> 42, 8200 \<mapsto> 0)\<rparr>"]
  by (simp add: sample_handlers_def sample_world_def)

text \<open>
  C4. For every class user-data pointer and instance pointer, \<open>c_free_instance_wrapper\<close>
  has no return value (its value has the one-element type \<open>unit\<close>), and it calls
  \<open>go_free_instance\<close> exactly once, with both pointers as received; it returns exactly
  when the handler does, leaving the world the handler left.
\<close>

theorem free_instance_calls_handler_once:
  "calls_of (c_free_instance_wrapper H cu inst w) = [Free_call cu inst]
   \<and> length (calls_of (c_free_instance_wrapper H cu inst w)) = 1
   \<and> value_of (c_free_instance_wrapper H cu inst w)
       = map_option fst (go_free_instance H cu inst w)
   \<and> world_of (c_free_instance_wrapper H cu inst w)
       = map_option snd (go_free_instance H cu inst w)"
  by (simp add: calls_of_def value_of_def world_of_def free_run)

text \<open>
  C5. The bridge is a stateless pass-through. Whatever sequence of callback invocations
  the host makes, from whatever world, serving them through the trampolines gives the same
  handler calls, the same replies and the same final world (memory and Go runtime) as
  calling the handlers directly; so no trampoline adds an effect of its own on anything
  its parameters point to. And after any earlier invocations \<open>cs\<close>, a further invocation
  \<open>c\<close> is served as the handler alone serves it on the world current at that moment:
  nothing is kept by the bridge from one call to the next.
\<close>

theorem bridge_is_stateless_pass_through:
  "host_run (via_bridge H) cs w = host_run (direct H) cs w
   \<and> host_run (via_bridge H) (cs @ [c]) w =
       bind_c (host_run (via_bridge H) cs)
         (\<lambda>rs. bind_c (direct H c) (\<lambda>r. return_c (rs @ [r]))) w
   \<and> world_of (c_create_instance_wrapper H cu w) = map_option snd (go_create_instance H cu w)
   \<and> world_of (c_free_instance_wrapper H cu inst w)
       = map_option snd (go_free_instance H cu inst w)
   \<and> world_of (c_method_call_wrapper H mu inst args n ret err w)
       = map_option snd (go_method_call H mu inst args n ret err w)"
proof -
  have same: "via_bridge H = direct H"
    by (rule ext) (rule via_bridge_direct)
  have "host_run (via_bridge H) cs w = host_run (direct H) cs w"
    by (simp only: same)
  moreover have "host_run (via_bridge H) (cs @ [c]) w =
       bind_c (host_run (via_bridge H) cs)
         (\<lambda>rs. bind_c (direct H c) (\<lambda>r. return_c (rs @ [r]))) w"
    by (simp only: host_run_snoc via_bridge_direct)
  ultimately show ?thesis
    by (simp add: world_of_def create_run free_run method_run)
qed

text \<open>
  C6. The scenario with \<open>arg_count = 0\<close> and a null argument array: when the handler,
  called with these, returns having written error code 0 to the error location, the
  call of \<open>c_method_call_wrapper\<close> returns (no crash), the caller reads error code 0 at
  the error location, and the handler was called once with the null array and the count 0
  as given. The outcome is the handler's own: the trampoline hands back exactly the world
  \<open>w'\<close> the handler left, so the 0 the caller reads is the one the handler wrote, and every
  other cell (the return-value cell included) reads as the handler left it. The
  trampoline reads nothing at the argument array.
\<close>

theorem method_call_null_args_scenario:
  assumes "go_method_call H mu inst NULL 0 ret err w = Some ((), w')"
    and "memory w' err = Some 0"
  shows "returns (snd (c_method_call_wrapper H mu inst NULL 0 ret err w))
         \<and> observed_at err (c_method_call_wrapper H mu inst NULL 0 ret err w) = Some 0
         \<and> calls_of (c_method_call_wrapper H mu inst NULL 0 ret err w)
             = [Method_call mu inst NULL 0 ret err]
         \<and> snd (c_method_call_wrapper H mu inst NULL 0 ret err w) = Some ((), w')
         \<and> world_of (c_method_call_wrapper H mu inst NULL 0 ret err w) = Some w'
         \<and> observed_at ret (c_method_call_wrapper H mu inst NULL 0 ret err w) = memory w' ret"
proof -
  have run: "c_method_call_wrapper H mu inst NULL 0 ret err w
      = ([Method_call mu inst NULL 0 ret err], Some ((), w'))"
    using assms(1) by (simp add: method_run)
  show ?thesis
    unfolding run using assms(2)
    by (simp add: returns_def observed_at_def calls_of_def world_of_def)
qed

text \<open>With the sample handler, in a world where the null address is unmapped, the error
  cell holds \<open>-1\<close> and the return-value cell holds 0 before the call: afterwards the caller
  reads the handler's 0 at the error cell and the handler's 42 at the return-value cell.\<close>

theorem method_call_null_args_scenario_witness:
  "memory (sample_world (- 1)) NULL = None
   \<and> memory (sample_world (- 1)) 8200 = Some (- 1)
   \<and> memory (sample_world (- 1)) 8192 = Some 0
   \<and> returns (snd (c_method_call_wrapper sample_handlers 4096 4104 NULL 0 8192 8200
        (sample_world (- 1))))
   \<and> observed_at 8200 (c_method_call_wrapper sample_handlers 4096 4104 NULL 0 8192 8200
        (sample_world (- 1))) = Some 0
   \<and> observed_at 8192 (c_method_call_wrapper sample_handlers 4096 4104 NULL 0 8192 8200
        (sample_world (- 1))) = Some 42
   \<and> calls_of (c_method_call_wrapper sample_handlers 4096 4104 NULL 0 8192 8200
        (sample_world (- 1))) = [Method_call 4096 4104 NULL 0 8192 8200]"
proof -
  have handler:
    "go_method_call sample_handlers 4096 4104 NULL 0 8192 8200 (sample_world (- 1))
      = Some ((), (sample_world (- 1))
          \<lparr>memory := (memory (sample_world (- 1)))(8192 \<mapsto> 42, 8200 \<mapsto> 0)\<rparr>)"
    by (simp add: sample_handlers_def sample_world_def)
  have err_cell:
    "memory ((sample_world (- 1))
        \<lparr>memory := (memory (sample_world (- 1)))(8192 \<mapsto> 42, 8200 \<mapsto> 0)\<rparr>) 8200 = Some 0"
    by simp
  have ret_cell:
    "memory ((sample_world (- 1))
        \<lparr>memory := (memory (sample_world (- 1)))(8192 \<mapsto> 42, 8200 \<mapsto> 0)\<rparr>) 8192 = Some 42"
    by simp
  have before: "memory (sample_world (- 1)) NULL = None
      \<and> memory (sample_world (- 1)) 8200 = Some (- 1)
      \<and> memory (sample_world (- 1)) 8192 = Some 0"
    by (simp add: sample_world_def NULL_def)
  show ?thesis
    using method_call_null_args_scenario [OF handler err_cell] before ret_cell
    by (simp add: returns_def)
qed

text \<open>
  C7. The bridge has no error of its own and looks at no error value. For every
  invocation of \<open>c_method_call_wrapper\<close> the error-code pointer the handler receives is
  the one the caller gave; each trampoline returns exactly when its handler returns (it
  raises nothing and catches nothing); whatever value \<open>v\<close> the error cell holds on entry,
  the trampoline does the same single call and hands back the handler's outcome; and the
  world after the call, the error cell included, is the one the handler left.
\<close>

theorem error_pointer_passes_through:
  "map error_ptr_passed (calls_of (c_method_call_wrapper H mu inst args n ret err w))
     = [Some err]
   \<and> returns (snd (c_method_call_wrapper H mu inst args n ret err w))
       = returns (go_method_call H mu inst args n ret err w)
   \<and> returns (snd (c_create_instance_wrapper H cu w)) = returns (go_create_instance H cu w)
   \<and> returns (snd (c_free_instance_wrapper H cu inst w))
       = returns (go_free_instance H cu inst w)
   \<and> c_method_call_wrapper H mu inst args n ret err (w\<lparr>memory := (memory w)(err \<mapsto> v)\<rparr>)
       = ([Method_call mu inst args n ret err],
          go_method_call H mu inst args n ret err (w\<lparr>memory := (memory w)(err \<mapsto> v)\<rparr>))
   \<and> world_of (c_method_call_wrapper H mu inst args n ret err w)
       = map_option snd (go_method_call H mu inst args n ret err w)"
  by (simp add: calls_of_def world_of_def create_run free_run method_run)

text \<open>
  C8. \<open>c_method_call_wrapper\<close> puts no bound and no sign check on \<open>arg_count\<close>: for
  every 64-bit value \<open>n\<close>, negative ones included and whatever the argument array holds,
  the handler is called once with \<open>arg_count\<close> equal to \<open>n\<close> (read as a signed number,
  \<open>sint n\<close>), and the outcome of the trampoline is the outcome of the handler: the bridge
  rejects nothing and clamps nothing.
\<close>

theorem arg_count_is_unchecked:
  "map arg_count_passed (calls_of (c_method_call_wrapper H mu inst args n ret err w))
     = [Some (sint n)]
   \<and> calls_of (c_method_call_wrapper H mu inst args n ret err w)
       = [Method_call mu inst args n ret err]
   \<and> snd (c_method_call_wrapper H mu inst args n ret err w)
       = go_method_call H mu inst args n ret err w"
  by (simp add: calls_of_def method_run)

text \<open>A count of \<open>-1\<close> with an argument array of one mapped cell reaches the sample
  handler, and the call returns.\<close>

theorem arg_count_is_unchecked_witness:
  "map arg_count_passed (calls_of (c_method_call_wrapper sample_handlers 4096 4104 8192 (- 1)
      8192 8200 (sample_world 0))) = [Some (- 1)]
   \<and> returns (snd (c_method_call_wrapper sample_handlers 4096 4104 8192 (- 1)
      8192 8200 (sample_world 0)))"
  using arg_count_is_unchecked
    [of sample_handlers 4096 4104 8192 "- 1" 8192 8200 "sample_world 0"]
  by (simp add: sample_handlers_def sample_world_def returns_def)

text \<open>
  C9. Every trampoline accepts a null pointer at any of its pointer parameters: when one
  or more of them is null, the trampoline still makes its single handler call with every
  parameter as received (the null ones as null), reads no memory itself, and its outcome is
  the outcome of the handler on these arguments; whether the call returns depends on the
  handler alone.
\<close>

theorem null_pointers_pass_through:
  "(cu = NULL \<longrightarrow>
      c_create_instance_wrapper H cu w = ([Create_call NULL], go_create_instance H NULL w))
   \<and> (cu = NULL \<or> inst = NULL \<longrightarrow>
      c_free_instance_wrapper H cu inst w
        = ([Free_call cu inst], go_free_instance H cu inst w))
   \<and> (mu = NULL \<or> inst = NULL \<or> args = NULL \<or> ret = NULL \<or> err = NULL \<longrightarrow>
      c_method_call_wrapper H mu inst args n ret err w
        = ([Method_call mu inst args n ret err], go_method_call H mu inst args n ret err w))"
proof (intro conjI impI)
  assume "cu = NULL"
  then show "c_create_instance_wrapper H cu w
      = ([Create_call NULL], go_create_instance H NULL w)"
    by (simp add: create_run)
next
  show "c_free_instance_wrapper H cu inst w
      = ([Free_call cu inst], go_free_instance H cu inst w)"
    by (rule free_run)
next
  show "c_method_call_wrapper H mu inst args n ret err w
      = ([Method_call mu inst args n ret err], go_method_call H mu inst args n ret err w)"
    by (rule method_run)
qed

text \<open>All pointers null, in a world where the null address is unmapped: the sample
  \<open>go_create_instance\<close> and \<open>go_free_instance\<close> return, and the sample \<open>go_method_call\<close>,
  which needs its output cells, does not.\<close>

theorem null_pointers_pass_through_witness:
  "memory (sample_world 0) NULL = None
   \<and> c_create_instance_wrapper sample_handlers NULL (sample_world 0)
       = ([Create_call NULL], Some (NULL, sample_world 0))
   \<and> c_free_instance_wrapper sample_handlers NULL NULL (sample_world 0)
       = ([Free_call NULL NULL], Some ((), sample_world 0))
   \<and> c_method_call_wrapper sample_handlers NULL NULL NULL 0 NULL NULL (sample_world 0)
       = ([Method_call NULL NULL NULL 0 NULL NULL], None)"
  using null_pointers_pass_through
    [of NULL sample_handlers "sample_world 0" NULL NULL NULL NULL NULL 0]
  by (simp add: sample_handlers_def sample_world_def NULL_def)

text \<open>
  C10. Two runs of the same trampoline with the same parameter values, in which the
  handler returns the same value (or fails to return in both), give the same returned value
  and the same sequence of handler calls, a single call; this holds even when the two
  runs start from different worlds and use different handler sets, since the trampoline
  looks at nothing but its parameters.
\<close>

theorem two_runs_agree:
  "(map_option fst (go_create_instance H1 cu w1) = map_option fst (go_create_instance H2 cu w2)
      \<longrightarrow> value_of (c_create_instance_wrapper H1 cu w1)
            = value_of (c_create_instance_wrapper H2 cu w2)
        \<and> calls_of (c_create_instance_wrapper H1 cu w1)
            = calls_of (c_create_instance_wrapper H2 cu w2)
        \<and> length (calls_of (c_create_instance_wrapper H1 cu w1)) = 1)
   \<and> (map_option fst (go_free_instance H1 cu inst w1)
        = map_option fst (go_free_instance H2 cu inst w2)
      \<longrightarrow> value_of (c_free_instance_wrapper H1 cu inst w1)
            = value_of (c_free_instance_wrapper H2 cu inst w2)
        \<and> calls_of (c_free_instance_wrapper H1 cu inst w1)
            = calls_of (c_free_instance_wrapper H2 cu inst w2)
        \<and> length (calls_of (c_free_instance_wrapper H1 cu inst w1)) = 1)
   \<and> (map_option fst (go_method_call H1 mu inst args n ret err w1)
        = map_option fst (go_method_call H2 mu inst args n ret err w2)
      \<longrightarrow> value_of (c_method_call_wrapper H1 mu inst args n ret err w1)
            = value_of (c_method_call_wrapper H2 mu inst args n ret err w2)
        \<and> calls_of (c_method_call_wrapper H1 mu inst args n ret err w1)
            = calls_of (c_method_call_wrapper H2 mu inst args n ret err w2)
        \<and> length (calls_of (c_method_call_wrapper H1 mu inst args n ret err w1)) = 1)"
  by (simp add: value_of_def calls_of_def create_run free_run method_run)

text \<open>Two runs with the sample handlers from worlds that differ at the cell 8200.\<close>

theorem two_runs_agree_witness:
  "memory (sample_world 1) 8200 \<noteq> memory (sample_world 2) 8200
   \<and> value_of (c_create_instance_wrapper sample_handlers 4096 (sample_world 1))
       = value_of (c_create_instance_wrapper sample_handlers 4096 (sample_world 2))
   \<and> value_of (c_free_instance_wrapper sample_handlers 4096 4104 (sample_world 1))
       = value_of (c_free_instance_wrapper sample_handlers 4096 4104 (sample_world 2))
   \<and> value_of (c_method_call_wrapper sample_handlers 4096 4104 NULL 0 8192 8200 (sample_world 1))
       = value_of (c_method_call_wrapper sample_handlers 4096 4104 NULL 0 8192 8200 (sample_world 2))
   \<and> calls_of (c_method_call_wrapper sample_handlers 4096 4104 NULL 0 8192 8200 (sample_world 1))
       = calls_of (c_method_call_wrapper sample_handlers 4096 4104 NULL 0 8192 8200 (sample_world 2))"
  using two_runs_agree
    [of sample_handlers 4096 "sample_world 1" sample_handlers "sample_world 2"
      4104 4096 NULL 0 8192 8200]
  by (simp add: sample_handlers_def sample_world_def NULL_def)

end
